theory Spec2Isabelle
  imports Complex_Main
begin

section \<open>Numbers and errors\<close>

text \<open>
  The notebooks compute with Python floats. \<open>bisection\<close> and \<open>newton_system\<close> are
  modelled on doubles, each operation rounded as the machine rounds it, since what they
  do depends on the rounding. \<open>RK4\<close>, \<open>newton\<close> and \<open>secant\<close> are modelled on
  \<^typ>\<open>real\<close>: what is stated of them is the order of their tests and updates, which
  is the same on doubles.

  Every \<^verbatim>\<open>raise ValueError(msg)\<close> of the source is the value
  \<open>Inl (ValueError msg)\<close>; a division by zero is \<open>Inl ZeroDivisionError\<close>; the error of
  \<^verbatim>\<open>np.linalg.solve\<close> is \<open>Inl (LinAlgError msg)\<close>.
\<close>

datatype error = ValueError string | ZeroDivisionError | LinAlgError string

definition py_div :: "real \<Rightarrow> real \<Rightarrow> error + real" where
  "py_div a b = (if b = 0 then Inl ZeroDivisionError else Inr (a / b))"

section \<open>Double-precision numbers\<close>

text \<open>
  A Python \<^verbatim>\<open>float\<close> is an IEEE 754 binary64 number. \<open>Finite x\<close> is the double of
  value \<open>x\<close> (\<open>is_double\<close> below says that \<open>x\<close> is such a value); the two zeros are
  one value \<open>Finite 0\<close>, since no comparison tells them apart. An operation computes
  the exact result and rounds it to the nearest double, ties to the even significand; a
  rounded result of magnitude \<open>2\<^sup>1\<^sup>0\<^sup>2\<^sup>4\<close> or more is an infinity. The significand has 53
  bits, the least exponent is \<open>-1022\<close>, and below it the spacing stays \<open>2\<^sup>-\<^sup>1\<^sup>0\<^sup>7\<^sup>4\<close>.
  An \<^verbatim>\<open>int\<close> argument that is a double counts as that double.
\<close>

datatype double = Finite real | PosInf | NegInf | NaN

definition pow2 :: "int \<Rightarrow> real" where
  "pow2 e = (if 0 \<le> e then 2 ^ nat e else 1 / 2 ^ nat (- e))"

text \<open>The exponent \<open>e\<close> with \<open>2\<^sup>e \<le> a < 2\<^sup>e\<^sup>+\<^sup>1\<close>, searched between \<open>lo\<close> and \<open>hi\<close>.\<close>

function binade_search :: "real \<Rightarrow> int \<Rightarrow> int \<Rightarrow> int" where
  "binade_search a lo hi =
     (if hi \<le> lo + 1 then lo
      else (let mid = (lo + hi) div 2 in
            if pow2 mid \<le> a then binade_search a mid hi else binade_search a lo mid))"
  by pat_completeness auto
termination
  by (relation "measure (\<lambda>(a, lo, hi). nat (hi - lo))") auto

declare binade_search.simps [simp del]

definition binade :: "real \<Rightarrow> int" where
  "binade x =
     (if pow2 (- 64) \<le> \<bar>x\<bar> \<and> \<bar>x\<bar> < pow2 64 then binade_search \<bar>x\<bar> (- 64) 64
      else if \<bar>x\<bar> < pow2 (- 1022) then - 1022
      else binade_search \<bar>x\<bar> (- 1022) 1025)"

text \<open>Rounding to the nearest integer, a tie to the even one.\<close>

definition round_from_floor :: "real \<Rightarrow> int \<Rightarrow> int" where
  "round_from_floor y n =
     (if y - of_int n < 1 / 2 then n
      else if y - of_int n > 1 / 2 then n + 1
      else if even n then n else n + 1)"

definition round_half_even :: "real \<Rightarrow> int" where
  "round_half_even y = round_from_floor y \<lfloor>y\<rfloor>"

text \<open>
  Rounding a real \<open>x\<close> of exponent \<open>e\<close> to a double: to the nearest multiple of the
  spacing \<open>2\<^sup>e\<^sup>-\<^sup>5\<^sup>2\<close> of the doubles around \<open>x\<close>, and to an infinity from \<open>2\<^sup>1\<^sup>0\<^sup>2\<^sup>4\<close> on
  (which only an exponent of 1023 or more can reach).
\<close>

definition overflow_check :: "real \<Rightarrow> real \<Rightarrow> double" where
  "overflow_check x y =
     (if \<bar>y\<bar> \<ge> pow2 1024 then (if 0 < x then PosInf else NegInf) else Finite y)"

definition round_to_multiple :: "real \<Rightarrow> real \<Rightarrow> real" where
  "round_to_multiple x u = of_int (round_half_even (x / u)) * u"

definition round_in_binade :: "real \<Rightarrow> int \<Rightarrow> double" where
  "round_in_binade x e =
     (if e < 1023 then Finite (round_to_multiple x (pow2 (e - 52)))
      else overflow_check x (round_to_multiple x (pow2 (e - 52))))"

definition round_double :: "real \<Rightarrow> double" where
  "round_double x = round_in_binade x (binade x)"

text \<open>The values that are doubles: rounding leaves them as they are.\<close>

definition is_double :: "double \<Rightarrow> bool" where
  "is_double d = (case d of Finite x \<Rightarrow> round_double x = Finite x | _ \<Rightarrow> True)"

fun fneg :: "double \<Rightarrow> double" where
  "fneg (Finite a) = Finite (- a)"
| "fneg PosInf = NegInf"
| "fneg NegInf = PosInf"
| "fneg NaN = NaN"

fun fsign :: "double \<Rightarrow> int" where
  "fsign (Finite a) = (if 0 < a then 1 else if a < 0 then - 1 else 0)"
| "fsign PosInf = 1"
| "fsign NegInf = - 1"
| "fsign NaN = 0"

fun fadd :: "double \<Rightarrow> double \<Rightarrow> double" where
  "fadd (Finite a) (Finite b) = round_double (a + b)"
| "fadd NaN b = NaN"
| "fadd a NaN = NaN"
| "fadd PosInf NegInf = NaN"
| "fadd NegInf PosInf = NaN"
| "fadd PosInf b = PosInf"
| "fadd a PosInf = PosInf"
| "fadd NegInf b = NegInf"
| "fadd a NegInf = NegInf"

definition fsub :: "double \<Rightarrow> double \<Rightarrow> double" where
  "fsub a b = fadd a (fneg b)"

fun fmul :: "double \<Rightarrow> double \<Rightarrow> double" where
  "fmul (Finite a) (Finite b) = round_double (a * b)"
| "fmul a b =
     (if a = NaN \<or> b = NaN \<or> a = Finite 0 \<or> b = Finite 0 then NaN
      else if fsign a * fsign b > 0 then PosInf else NegInf)"

text \<open>
  The quotient of two doubles. For a divisor zero IEEE 754 decides by the sign of the zero,
  which is not kept here: \<open>fquot\<close> is used with a nonzero divisor only. Python raises
  \<^verbatim>\<open>ZeroDivisionError\<close> on a division of floats by zero.
\<close>

fun fquot :: "double \<Rightarrow> double \<Rightarrow> double" where
  "fquot NaN b = NaN"
| "fquot a NaN = NaN"
| "fquot (Finite a) (Finite b) = (if b = 0 then NaN else round_double (a / b))"
| "fquot (Finite a) b = Finite 0"
| "fquot a (Finite b) =
     (if b = 0 then NaN else if fsign a * fsign (Finite b) > 0 then PosInf else NegInf)"
| "fquot a b = NaN"

definition fdiv :: "double \<Rightarrow> double \<Rightarrow> error + double" where
  "fdiv a b = (if b = Finite 0 then Inl ZeroDivisionError else Inr (fquot a b))"

text \<open>The comparisons \<^verbatim>\<open><\<close>, \<^verbatim>\<open>==\<close>, \<^verbatim>\<open>>\<close> and \<^verbatim>\<open>>=\<close>: every comparison with NaN is false.\<close>

fun fless :: "double \<Rightarrow> double \<Rightarrow> bool" where
  "fless (Finite a) (Finite b) = (a < b)"
| "fless NaN b = False"
| "fless a NaN = False"
| "fless a NegInf = False"
| "fless PosInf b = False"
| "fless a PosInf = True"
| "fless NegInf b = True"

fun feq :: "double \<Rightarrow> double \<Rightarrow> bool" where
  "feq NaN b = False"
| "feq a NaN = False"
| "feq a b = (a = b)"

definition fgt :: "double \<Rightarrow> double \<Rightarrow> bool" where
  "fgt a b = fless b a"

definition fge :: "double \<Rightarrow> double \<Rightarrow> bool" where
  "fge a b = (fless b a \<or> feq a b)"

text \<open>The literal \<^verbatim>\<open>1e-6\<close>: the double nearest to \<open>10\<^sup>-\<^sup>6\<close>.\<close>

definition default_tol :: double where
  "default_tol = round_double (1 / 10 ^ 6)"

section \<open>The Runge-Kutta stepper of the ODE lab\<close>

text \<open>
  \<^verbatim>\<open>
  def RK4(f, x0, t0, dt, n):
      T = [t0]
      X = [x0]
      for i in range(n):
          k1 = dt * np.array(f(X[-1]         ))
          k2 = dt * np.array(f(X[-1] + 0.5*k1))
          k3 = dt * np.array(f(X[-1] + 0.5*k1))
          k4 = dt * np.array(f(X[-1] +     k3))
          T.append(T[-1] + dt)
          X.append(X[-1] + k1/6 + k2/3 + k3/3 + k4/6)
      return np.array(T), np.array(X)
  \<close>
  The state is any real vector space (a scalar or an array of fixed shape); the lists
  \<open>T\<close> and \<open>X\<close> start with one element, so \<open>X[-1]\<close> is \<open>last X\<close>.
\<close>

fun RK4_loop ::
  "('a::real_vector \<Rightarrow> 'a) \<Rightarrow> real \<Rightarrow> nat \<Rightarrow> real list \<Rightarrow> 'a list \<Rightarrow> real list \<times> 'a list" where
  "RK4_loop f dt 0 T X = (T, X)"
| "RK4_loop f dt (Suc i) T X =
     (let k1 = dt *\<^sub>R f (last X);
          k2 = dt *\<^sub>R f (last X + 0.5 *\<^sub>R k1);
          k3 = dt *\<^sub>R f (last X + 0.5 *\<^sub>R k1);
          k4 = dt *\<^sub>R f (last X + k3)
      in RK4_loop f dt i (T @ [last T + dt])
           (X @ [last X + k1 /\<^sub>R 6 + k2 /\<^sub>R 3 + k3 /\<^sub>R 3 + k4 /\<^sub>R 6]))"

definition RK4 ::
  "('a::real_vector \<Rightarrow> 'a) \<Rightarrow> 'a \<Rightarrow> real \<Rightarrow> real \<Rightarrow> int \<Rightarrow> real list \<times> 'a list" where
  "RK4 f x0 t0 dt n = RK4_loop f dt (nat n) [t0] [x0]"

text \<open>
  The reference stepper, as the lab's own text and the specification describe it: the
  third slope is taken at \<open>X + k2/2\<close>.
\<close>

fun RK4_reference_loop ::
  "('a::real_vector \<Rightarrow> 'a) \<Rightarrow> real \<Rightarrow> nat \<Rightarrow> real list \<Rightarrow> 'a list \<Rightarrow> real list \<times> 'a list" where
  "RK4_reference_loop f dt 0 T X = (T, X)"
| "RK4_reference_loop f dt (Suc i) T X =
     (let k1 = dt *\<^sub>R f (last X);
          k2 = dt *\<^sub>R f (last X + k1 /\<^sub>R 2);
          k3 = dt *\<^sub>R f (last X + k2 /\<^sub>R 2);
          k4 = dt *\<^sub>R f (last X + k3)
      in RK4_reference_loop f dt i (T @ [last T + dt])
           (X @ [last X + k1 /\<^sub>R 6 + k2 /\<^sub>R 3 + k3 /\<^sub>R 3 + k4 /\<^sub>R 6]))"

definition RK4_reference ::
  "('a::real_vector \<Rightarrow> 'a) \<Rightarrow> 'a \<Rightarrow> real \<Rightarrow> real \<Rightarrow> int \<Rightarrow> real list \<times> 'a list" where
  "RK4_reference f x0 t0 dt n = RK4_reference_loop f dt (nat n) [t0] [x0]"

section \<open>The root finders of the root-finding notes\<close>

subsection \<open>Bisection\<close>

text \<open>
  \<^verbatim>\<open>
  def bisection(f, l, h, tol=1e-6):
      if f(l) * f(h) >= 0:
          raise ValueError("f(a) and f(b) must have opposite signs")
      while h - l > 2*tol:
          m = (l + h) / 2
          if f(m) == 0:
              return m  # m is the root by definition
          elif f(l) * f(m) > 0:
              l = m
          else:
              h = m
      return (l + h) / 2
  \<close>
  The function is modelled on doubles, every operation rounded as Python rounds it.
  The \<^verbatim>\<open>while\<close> loop has no bound of its own, so it is a partial function:
  \<open>None\<close> is a loop that never ends.
\<close>

partial_function (option) bisection_loop ::
  "(double \<Rightarrow> double) \<Rightarrow> double \<Rightarrow> double \<Rightarrow> double \<Rightarrow> (error + double) option" where
  "bisection_loop f l h tol =
     (if fgt (fsub h l) (fmul (Finite 2) tol) then
        (case fdiv (fadd l h) (Finite 2) of
           Inl e \<Rightarrow> Some (Inl e)
         | Inr m \<Rightarrow>
             if feq (f m) (Finite 0) then Some (Inr m)
             else if fgt (fmul (f l) (f m)) (Finite 0) then bisection_loop f m h tol
             else bisection_loop f l m tol)
      else
        (case fdiv (fadd l h) (Finite 2) of
           Inl e \<Rightarrow> Some (Inl e)
         | Inr r \<Rightarrow> Some (Inr r)))"

declare bisection_loop.simps [code]

definition bisection_input_error :: error where
  "bisection_input_error = ValueError ''f(a) and f(b) must have opposite signs''"

definition bisection ::
  "(double \<Rightarrow> double) \<Rightarrow> double \<Rightarrow> double \<Rightarrow> double \<Rightarrow> (error + double) option" where
  "bisection f l h tol =
     (if fge (fmul (f l) (f h)) (Finite 0)
      then Some (Inl (ValueError ''f(a) and f(b) must have opposite signs''))
      else bisection_loop f l h tol)"

subsection \<open>Newton-Raphson\<close>

text \<open>
  \<^verbatim>\<open>
  def newton(f, df, x0, tol=1e-6, imax=100):
      for _ in range(imax):
          f0, df0 = f(x0), df(x0)
          if df0 == 0:
              raise ValueError("Derivative is zero. No convergence.")
          x = x0 - f0 / df0
          if abs(x - x0) < tol:
              return x
          x0 = x
      raise ValueError("Maximum iterations reached without convergence")
  \<close>
  \<^verbatim>\<open>range(imax)\<close> runs \<open>nat imax\<close> times (no time for a negative \<open>imax\<close>).
  The division goes through \<open>py_div\<close>, so that a division by zero would show.
\<close>

fun newton_loop ::
  "(real \<Rightarrow> real) \<Rightarrow> (real \<Rightarrow> real) \<Rightarrow> real \<Rightarrow> real \<Rightarrow> nat \<Rightarrow> error + real" where
  "newton_loop f df x0 tol 0 =
     Inl (ValueError ''Maximum iterations reached without convergence'')"
| "newton_loop f df x0 tol (Suc n) =
     (let f0 = f x0; df0 = df x0 in
      if df0 = 0 then Inl (ValueError ''Derivative is zero. No convergence.'')
      else
        (case py_div f0 df0 of
           Inl e \<Rightarrow> Inl e
         | Inr q \<Rightarrow>
             (let x = x0 - q in
              if \<bar>x - x0\<bar> < tol then Inr x else newton_loop f df x tol n)))"

definition newton ::
  "(real \<Rightarrow> real) \<Rightarrow> (real \<Rightarrow> real) \<Rightarrow> real \<Rightarrow> real \<Rightarrow> int \<Rightarrow> error + real" where
  "newton f df x0 tol imax = newton_loop f df x0 tol (nat imax)"

text \<open>
  The sequence of iterates \<open>x\<^sub>0, x\<^sub>1, \<dots>\<close> with
  \<open>x\<^sub>k\<^sub>+\<^sub>1 = x\<^sub>k - f x\<^sub>k / df x\<^sub>k\<close>, and the conditions of the three outcomes
  in terms of it.
\<close>

fun newton_iterate :: "(real \<Rightarrow> real) \<Rightarrow> (real \<Rightarrow> real) \<Rightarrow> real \<Rightarrow> nat \<Rightarrow> real" where
  "newton_iterate f df x0 0 = x0"
| "newton_iterate f df x0 (Suc k) = newton_iterate f df (x0 - f x0 / df x0) k"

definition newton_small_step ::
  "(real \<Rightarrow> real) \<Rightarrow> (real \<Rightarrow> real) \<Rightarrow> real \<Rightarrow> real \<Rightarrow> nat \<Rightarrow> bool" where
  "newton_small_step f df x0 tol k =
     (\<bar>newton_iterate f df x0 (Suc k) - newton_iterate f df x0 k\<bar> < tol)"

definition newton_converged_at ::
  "(real \<Rightarrow> real) \<Rightarrow> (real \<Rightarrow> real) \<Rightarrow> real \<Rightarrow> real \<Rightarrow> nat \<Rightarrow> bool" where
  "newton_converged_at f df x0 tol k =
     ((\<forall>j\<in>{..k}. df (newton_iterate f df x0 j) \<noteq> 0)
      \<and> (\<forall>j\<in>{..<k}. \<not> newton_small_step f df x0 tol j)
      \<and> newton_small_step f df x0 tol k)"

definition newton_zero_derivative_at ::
  "(real \<Rightarrow> real) \<Rightarrow> (real \<Rightarrow> real) \<Rightarrow> real \<Rightarrow> real \<Rightarrow> nat \<Rightarrow> bool" where
  "newton_zero_derivative_at f df x0 tol k =
     (df (newton_iterate f df x0 k) = 0
      \<and> (\<forall>j\<in>{..<k}. df (newton_iterate f df x0 j) \<noteq> 0 \<and> \<not> newton_small_step f df x0 tol j))"

definition newton_exhausted ::
  "(real \<Rightarrow> real) \<Rightarrow> (real \<Rightarrow> real) \<Rightarrow> real \<Rightarrow> real \<Rightarrow> nat \<Rightarrow> bool" where
  "newton_exhausted f df x0 tol n =
     (\<forall>k\<in>{..<n}. df (newton_iterate f df x0 k) \<noteq> 0 \<and> \<not> newton_small_step f df x0 tol k)"

definition zero_derivative_error :: error where
  "zero_derivative_error = ValueError ''Derivative is zero. No convergence.''"

definition no_convergence_error :: error where
  "no_convergence_error = ValueError ''Maximum iterations reached without convergence''"

subsection \<open>Secant\<close>

text \<open>
  \<^verbatim>\<open>
  def secant(f, x0, x1, tol=1e-6, imax=100):
      for _ in range(imax):
          f0, f1 = f(x0), f(x1)
          if f0 == f1:
              raise ValueError("Division by zero in secant method.")
          x2 = x1 - f1 * (x1 - x0) / (f1 - f0)
          if abs(x2 - x1) < tol:
              return x2
          x0, x1 = x1, x2
      raise ValueError("Maximum iterations reached without convergence")
  \<close>
\<close>

fun secant_loop ::
  "(real \<Rightarrow> real) \<Rightarrow> real \<Rightarrow> real \<Rightarrow> real \<Rightarrow> nat \<Rightarrow> error + real" where
  "secant_loop f x0 x1 tol 0 =
     Inl (ValueError ''Maximum iterations reached without convergence'')"
| "secant_loop f x0 x1 tol (Suc n) =
     (let f0 = f x0; f1 = f x1 in
      if f0 = f1 then Inl (ValueError ''Division by zero in secant method.'')
      else
        (case py_div (f1 * (x1 - x0)) (f1 - f0) of
           Inl e \<Rightarrow> Inl e
         | Inr q \<Rightarrow>
             (let x2 = x1 - q in
              if \<bar>x2 - x1\<bar> < tol then Inr x2 else secant_loop f x1 x2 tol n)))"

definition secant ::
  "(real \<Rightarrow> real) \<Rightarrow> real \<Rightarrow> real \<Rightarrow> real \<Rightarrow> int \<Rightarrow> error + real" where
  "secant f x0 x1 tol imax = secant_loop f x0 x1 tol (nat imax)"

text \<open>
  The finite-difference update and the sequence of pairs \<open>(x\<^sub>k, x\<^sub>k\<^sub>+\<^sub>1)\<close> it
  generates.
\<close>

definition secant_update :: "(real \<Rightarrow> real) \<Rightarrow> real \<Rightarrow> real \<Rightarrow> real" where
  "secant_update f x0 x1 = x1 - f x1 * (x1 - x0) / (f x1 - f x0)"

fun secant_iterate :: "(real \<Rightarrow> real) \<Rightarrow> real \<Rightarrow> real \<Rightarrow> nat \<Rightarrow> real \<times> real" where
  "secant_iterate f x0 x1 0 = (x0, x1)"
| "secant_iterate f x0 x1 (Suc k) = secant_iterate f x1 (secant_update f x0 x1) k"

definition secant_values_coincide :: "(real \<Rightarrow> real) \<Rightarrow> real \<Rightarrow> real \<Rightarrow> nat \<Rightarrow> bool" where
  "secant_values_coincide f x0 x1 k =
     (f (fst (secant_iterate f x0 x1 k)) = f (snd (secant_iterate f x0 x1 k)))"

definition secant_small_step :: "(real \<Rightarrow> real) \<Rightarrow> real \<Rightarrow> real \<Rightarrow> real \<Rightarrow> nat \<Rightarrow> bool" where
  "secant_small_step f x0 x1 tol k =
     (\<bar>snd (secant_iterate f x0 x1 (Suc k)) - snd (secant_iterate f x0 x1 k)\<bar> < tol)"

definition secant_converged_at :: "(real \<Rightarrow> real) \<Rightarrow> real \<Rightarrow> real \<Rightarrow> real \<Rightarrow> nat \<Rightarrow> bool" where
  "secant_converged_at f x0 x1 tol k =
     ((\<forall>j\<in>{..k}. \<not> secant_values_coincide f x0 x1 j)
      \<and> (\<forall>j\<in>{..<k}. \<not> secant_small_step f x0 x1 tol j)
      \<and> secant_small_step f x0 x1 tol k)"

definition secant_coincide_at :: "(real \<Rightarrow> real) \<Rightarrow> real \<Rightarrow> real \<Rightarrow> real \<Rightarrow> nat \<Rightarrow> bool" where
  "secant_coincide_at f x0 x1 tol k =
     (secant_values_coincide f x0 x1 k
      \<and> (\<forall>j\<in>{..<k}. \<not> secant_values_coincide f x0 x1 j \<and> \<not> secant_small_step f x0 x1 tol j))"

definition secant_exhausted :: "(real \<Rightarrow> real) \<Rightarrow> real \<Rightarrow> real \<Rightarrow> real \<Rightarrow> nat \<Rightarrow> bool" where
  "secant_exhausted f x0 x1 tol n =
     (\<forall>k\<in>{..<n}. \<not> secant_values_coincide f x0 x1 k \<and> \<not> secant_small_step f x0 x1 tol k)"

definition secant_division_error :: error where
  "secant_division_error = ValueError ''Division by zero in secant method.''"

subsection \<open>Newton-Raphson for systems\<close>

text \<open>
  \<^verbatim>\<open>
  def newton_system(F, J, X0, tol=1e-6, max_iter=100):
      for _ in range(max_iter):
          F0 = F(X0)
          J0 = J(X0)
          dX = np.linalg.solve(J0, -F0)
          X  = X0 + dX
          if np.linalg.norm(dX) < tol:
              return X
          X0 = X
      raise ValueError("Maximum iterations reached without convergence")
  \<close>
  A vector is a one-dimensional array of doubles, a matrix the list of its rows.
  \<open>np_add\<close> is the addition of one-dimensional arrays (an array of length one is
  broadcast, other lengths that differ are an error) and \<open>np_neg\<close> the negation.

  \<^verbatim>\<open>np.linalg.solve\<close> and \<^verbatim>\<open>np.linalg.norm\<close> belong to numpy, not to the
  notebooks: they are the parameters \<open>solve\<close> and \<open>nrm\<close> of the model, and nothing is
  assumed of them.
\<close>

type_synonym vec = "double list"

type_synonym mat = "double list list"

definition np_add :: "vec \<Rightarrow> vec \<Rightarrow> error + vec" where
  "np_add x y =
     (if length x = length y then Inr (map2 fadd x y)
      else if length x = 1 then Inr (map (\<lambda>b. fadd (hd x) b) y)
      else if length y = 1 then Inr (map (\<lambda>a. fadd a (hd y)) x)
      else Inl (ValueError ''operands could not be broadcast together''))"

definition np_neg :: "vec \<Rightarrow> vec" where
  "np_neg v = map fneg v"

fun newton_system_loop ::
  "(mat \<Rightarrow> vec \<Rightarrow> error + vec) \<Rightarrow> (vec \<Rightarrow> double) \<Rightarrow> (vec \<Rightarrow> vec) \<Rightarrow> (vec \<Rightarrow> mat)
   \<Rightarrow> vec \<Rightarrow> double \<Rightarrow> nat \<Rightarrow> error + vec" where
  "newton_system_loop solve nrm F J X0 tol 0 =
     Inl (ValueError ''Maximum iterations reached without convergence'')"
| "newton_system_loop solve nrm F J X0 tol (Suc n) =
     (let F0 = F X0; J0 = J X0 in
      case solve J0 (np_neg F0) of
        Inl e \<Rightarrow> Inl e
      | Inr dX \<Rightarrow>
          (case np_add X0 dX of
             Inl e \<Rightarrow> Inl e
           | Inr X \<Rightarrow>
               if fless (nrm dX) tol then Inr X
               else newton_system_loop solve nrm F J X tol n))"

definition newton_system ::
  "(mat \<Rightarrow> vec \<Rightarrow> error + vec) \<Rightarrow> (vec \<Rightarrow> double) \<Rightarrow> (vec \<Rightarrow> vec) \<Rightarrow> (vec \<Rightarrow> mat)
   \<Rightarrow> vec \<Rightarrow> double \<Rightarrow> int \<Rightarrow> error + vec" where
  "newton_system solve nrm F J X0 tol max_iter =
     newton_system_loop solve nrm F J X0 tol (nat max_iter)"

text \<open>
  One iteration up to the test of the norm: the correction \<open>dX\<close> that the solver
  returns for \<open>J X\<close> and \<open>- F X\<close>, and the moved point \<open>X + dX\<close>; or the error of the
  solver or of the addition.
\<close>

definition newton_system_step ::
  "(mat \<Rightarrow> vec \<Rightarrow> error + vec) \<Rightarrow> (vec \<Rightarrow> vec) \<Rightarrow> (vec \<Rightarrow> mat) \<Rightarrow> vec
   \<Rightarrow> error + (vec \<times> vec)" where
  "newton_system_step solve F J X =
     (case solve (J X) (np_neg (F X)) of
        Inl e \<Rightarrow> Inl e
      | Inr dX \<Rightarrow> (case np_add X dX of Inl e \<Rightarrow> Inl e | Inr X' \<Rightarrow> Inr (dX, X')))"

text \<open>
  The correction and the moved point at \<open>X\<close> (where the step fails, no correction and
  the point itself), the sequence of iterates, and the conditions of the outcomes.
\<close>

definition system_correction ::
  "(mat \<Rightarrow> vec \<Rightarrow> error + vec) \<Rightarrow> (vec \<Rightarrow> vec) \<Rightarrow> (vec \<Rightarrow> mat) \<Rightarrow> vec \<Rightarrow> vec" where
  "system_correction solve F J X =
     (case newton_system_step solve F J X of Inl e \<Rightarrow> [] | Inr (dX, X') \<Rightarrow> dX)"

definition system_next ::
  "(mat \<Rightarrow> vec \<Rightarrow> error + vec) \<Rightarrow> (vec \<Rightarrow> vec) \<Rightarrow> (vec \<Rightarrow> mat) \<Rightarrow> vec \<Rightarrow> vec" where
  "system_next solve F J X =
     (case newton_system_step solve F J X of Inl e \<Rightarrow> X | Inr (dX, X') \<Rightarrow> X')"

fun newton_system_iterate ::
  "(mat \<Rightarrow> vec \<Rightarrow> error + vec) \<Rightarrow> (vec \<Rightarrow> vec) \<Rightarrow> (vec \<Rightarrow> mat) \<Rightarrow> vec \<Rightarrow> nat \<Rightarrow> vec" where
  "newton_system_iterate solve F J X0 0 = X0"
| "newton_system_iterate solve F J X0 (Suc k) =
     newton_system_iterate solve F J (system_next solve F J X0) k"

definition system_step_at ::
  "(mat \<Rightarrow> vec \<Rightarrow> error + vec) \<Rightarrow> (vec \<Rightarrow> vec) \<Rightarrow> (vec \<Rightarrow> mat) \<Rightarrow> vec \<Rightarrow> nat
   \<Rightarrow> error + (vec \<times> vec)" where
  "system_step_at solve F J X0 k =
     newton_system_step solve F J (newton_system_iterate solve F J X0 k)"

definition system_small_step ::
  "(mat \<Rightarrow> vec \<Rightarrow> error + vec) \<Rightarrow> (vec \<Rightarrow> double) \<Rightarrow> (vec \<Rightarrow> vec) \<Rightarrow> (vec \<Rightarrow> mat) \<Rightarrow> vec
   \<Rightarrow> double \<Rightarrow> nat \<Rightarrow> bool" where
  "system_small_step solve nrm F J X0 tol k =
     fless (nrm (system_correction solve F J (newton_system_iterate solve F J X0 k))) tol"

definition system_converged_at ::
  "(mat \<Rightarrow> vec \<Rightarrow> error + vec) \<Rightarrow> (vec \<Rightarrow> double) \<Rightarrow> (vec \<Rightarrow> vec) \<Rightarrow> (vec \<Rightarrow> mat) \<Rightarrow> vec
   \<Rightarrow> double \<Rightarrow> nat \<Rightarrow> bool" where
  "system_converged_at solve nrm F J X0 tol k =
     ((\<forall>j\<in>{..k}. \<not> isl (system_step_at solve F J X0 j))
      \<and> (\<forall>j\<in>{..<k}. \<not> system_small_step solve nrm F J X0 tol j)
      \<and> system_small_step solve nrm F J X0 tol k)"

definition system_failed_at ::
  "(mat \<Rightarrow> vec \<Rightarrow> error + vec) \<Rightarrow> (vec \<Rightarrow> double) \<Rightarrow> (vec \<Rightarrow> vec) \<Rightarrow> (vec \<Rightarrow> mat) \<Rightarrow> vec
   \<Rightarrow> double \<Rightarrow> nat \<Rightarrow> error \<Rightarrow> bool" where
  "system_failed_at solve nrm F J X0 tol k e =
     (system_step_at solve F J X0 k = Inl e
      \<and> (\<forall>j\<in>{..<k}. \<not> isl (system_step_at solve F J X0 j)
                     \<and> \<not> system_small_step solve nrm F J X0 tol j))"

definition system_exhausted ::
  "(mat \<Rightarrow> vec \<Rightarrow> error + vec) \<Rightarrow> (vec \<Rightarrow> double) \<Rightarrow> (vec \<Rightarrow> vec) \<Rightarrow> (vec \<Rightarrow> mat) \<Rightarrow> vec
   \<Rightarrow> double \<Rightarrow> nat \<Rightarrow> bool" where
  "system_exhausted solve nrm F J X0 tol n =
     (\<forall>k\<in>{..<n}. \<not> isl (system_step_at solve F J X0 k)
                  \<and> \<not> system_small_step solve nrm F J X0 tol k)"
text \<open>
  A model of the two numpy functions, for the examples. For a system of size two
  \<^verbatim>\<open>np.linalg.solve\<close> runs LAPACK's \<^verbatim>\<open>dgesv\<close>: the LU factorisation with partial
  pivoting, where the column under the pivot is scaled by the reciprocal of the pivot,
  then the two triangular solves. \<open>dgesv2\<close> follows the reference implementation on
  systems of size two, every operation rounded on its own; it raises when a pivot is
  exactly zero. Systems of another size are not modelled: there \<open>dgesv2\<close> has the value
  of numpy's error for a matrix that is not square.
  \<^verbatim>\<open>np.linalg.norm\<close> of a vector is the square root of the sum of its squares.
\<close>

fun fabs :: "double \<Rightarrow> double" where
  "fabs (Finite a) = Finite \<bar>a\<bar>"
| "fabs PosInf = PosInf"
| "fabs NegInf = PosInf"
| "fabs NaN = NaN"

fun fsqrt :: "double \<Rightarrow> double" where
  "fsqrt (Finite a) = (if a < 0 then NaN else round_double (sqrt a))"
| "fsqrt PosInf = PosInf"
| "fsqrt NegInf = NaN"
| "fsqrt NaN = NaN"

definition linear_solve_error :: error where
  "linear_solve_error = LinAlgError ''Singular matrix''"

definition lu_scale :: "double \<Rightarrow> double \<Rightarrow> double" where
  "lu_scale p q =
     (if fge (fabs p) (Finite (pow2 (- 1022))) then fmul q (fquot (Finite 1) p)
      else fquot q p)"

definition forward2 :: "double \<Rightarrow> double \<Rightarrow> double \<Rightarrow> double" where
  "forward2 l21 c1 c2 = (if feq c1 (Finite 0) then c2 else fsub c2 (fmul c1 l21))"

definition backward2 :: "double \<Rightarrow> double \<Rightarrow> double \<Rightarrow> double \<Rightarrow> double \<Rightarrow> vec" where
  "backward2 u11 u12 u22 c1 y2 =
     (let x2 = (if feq y2 (Finite 0) then y2 else fquot y2 u22);
          y1 = (if feq y2 (Finite 0) then c1 else fsub c1 (fmul x2 u12));
          x1 = (if feq y1 (Finite 0) then y1 else fquot y1 u11)
      in [x1, x2])"

definition lu_solve2 ::
  "double \<Rightarrow> double \<Rightarrow> double \<Rightarrow> double \<Rightarrow> double \<Rightarrow> double \<Rightarrow> error + vec" where
  "lu_solve2 u11 u12 a21 a22 c1 c2 =
     (if feq u11 (Finite 0) then Inl (LinAlgError ''Singular matrix'')
      else
        (let l21 = lu_scale u11 a21;
             u22 = fsub a22 (fmul l21 u12)
         in if feq u22 (Finite 0) then Inl (LinAlgError ''Singular matrix'')
            else Inr (backward2 u11 u12 u22 c1 (forward2 l21 c1 c2))))"

fun dgesv2 :: "mat \<Rightarrow> vec \<Rightarrow> error + vec" where
  "dgesv2 [[a11, a12], [a21, a22]] [b1, b2] =
     (if fless (fabs a11) (fabs a21) then lu_solve2 a21 a22 a11 a12 b2 b1
      else lu_solve2 a11 a12 a21 a22 b1 b2)"
| "dgesv2 A b = Inl (LinAlgError ''Last 2 dimensions of the array must be square'')"

definition linalg_norm :: "vec \<Rightarrow> double" where
  "linalg_norm v = fsqrt (foldl fadd (Finite 0) (map (\<lambda>x. fmul x x) v))"

text \<open>A matrix of size two with finite entries whose determinant is exactly zero.\<close>

fun singular2 :: "mat \<Rightarrow> bool" where
  "singular2 [[Finite a, Finite b], [Finite c, Finite d]] = (a * d - b * c = 0)"
| "singular2 A = False"
text \<open>
  Systems of size two for the examples:
  \<^verbatim>\<open>F = lambda X: np.array([49*X[0] + X[1] - 1, 49*X[0] + X[1] - 1])\<close> with
  \<^verbatim>\<open>J = lambda X: np.array([[49.0, 1.0], [49.0, 1.0]])\<close>, and
  \<^verbatim>\<open>F = lambda X: np.array([X[0] - 1, X[1]])\<close> with the identity matrix, or the matrix
  of ones, for \<open>J\<close>.
\<close>

fun singular_F :: "vec \<Rightarrow> vec" where
  "singular_F [x, y] =
     [fsub (fadd (fmul (Finite 49) x) y) (Finite 1), fsub (fadd (fmul (Finite 49) x) y) (Finite 1)]"
| "singular_F X = []"

definition singular_J :: "vec \<Rightarrow> mat" where
  "singular_J X = [[Finite 49, Finite 1], [Finite 49, Finite 1]]"

fun shift_F :: "vec \<Rightarrow> vec" where
  "shift_F [x, y] = [fsub x (Finite 1), y]"
| "shift_F X = []"

definition identity_J :: "vec \<Rightarrow> mat" where
  "identity_J X = [[Finite 1, Finite 0], [Finite 0, Finite 1]]"

definition ones_J :: "vec \<Rightarrow> mat" where
  "ones_J X = [[Finite 1, Finite 1], [Finite 1, Finite 1]]"

subsection \<open>The signatures of the solvers\<close>

text \<open>
  The parameter lists of the four \<^verbatim>\<open>def\<close> lines, each parameter with its default
  value when it has one:
  \<^verbatim>\<open>
  def bisection(f, l, h, tol=1e-6):
  def newton(f, df, x0, tol=1e-6, imax=100):
  def secant(f, x0, x1, tol=1e-6, imax=100):
  def newton_system(F, J, X0, tol=1e-6, max_iter=100):
  \<close>
\<close>

datatype pyval = PyInt int | PyFloat real

type_synonym signature = "(string \<times> pyval option) list"

definition bisection_signature :: signature where
  "bisection_signature =
     [(''f'', None), (''l'', None), (''h'', None), (''tol'', Some (PyFloat (1 / 10 ^ 6)))]"

definition newton_signature :: signature where
  "newton_signature =
     [(''f'', None), (''df'', None), (''x0'', None), (''tol'', Some (PyFloat (1 / 10 ^ 6))),
      (''imax'', Some (PyInt 100))]"

definition secant_signature :: signature where
  "secant_signature =
     [(''f'', None), (''x0'', None), (''x1'', None), (''tol'', Some (PyFloat (1 / 10 ^ 6))),
      (''imax'', Some (PyInt 100))]"

definition newton_system_signature :: signature where
  "newton_system_signature =
     [(''F'', None), (''J'', None), (''X0'', None), (''tol'', Some (PyFloat (1 / 10 ^ 6))),
      (''max_iter'', Some (PyInt 100))]"

text \<open>The optional parameters of a signature, with their defaults, and the defaults alone.\<close>

definition optional_parameters :: "signature \<Rightarrow> (string \<times> pyval) list" where
  "optional_parameters s = List.map_filter (\<lambda>(name, d). map_option (Pair name) d) s"

definition default_values :: "signature \<Rightarrow> pyval list" where
  "default_values s = map snd (optional_parameters s)"

section \<open>Results\<close>

text \<open>
  Claim C8. The claim is that \<open>RK4\<close> equals the textbook stepper, with the third slope
  taken at \<open>X + k2/2\<close>. The code takes it at \<open>X + k1/2\<close>: for \<open>f x = x\<close>,
  one step of size 1 from \<open>x0 = 1\<close> gives \<open>31/12\<close>, where the textbook stepper
  gives \<open>65/24\<close>.
\<close>

theorem RK4_differs_from_reference:
  "RK4 (\<lambda>x. x) (1::real) 0 1 1 = ([0, 1], [1, 31 / 12])
   \<and> RK4_reference (\<lambda>x. x) (1::real) 0 1 1 = ([0, 1], [1, 65 / 24])
   \<and> RK4 (\<lambda>x. x) (1::real) 0 1 1 \<noteq> RK4_reference (\<lambda>x. x) (1::real) 0 1 1"
  by (simp add: RK4_def RK4_reference_def Let_def)

subsection \<open>Newton-Raphson: the outcomes\<close>

lemma ball_atMost_Suc_shift: "(\<forall>j\<in>{..Suc k}. P j) \<longleftrightarrow> (P 0 \<and> (\<forall>j\<in>{..k}. P (Suc j)))"
  by (simp add: atMost_Suc_eq_insert_0)

lemma ball_lessThan_Suc_shift: "(\<forall>j\<in>{..<Suc k}. P j) \<longleftrightarrow> (P 0 \<and> (\<forall>j\<in>{..<k}. P (Suc j)))"
  by (simp add: lessThan_Suc_eq_insert_0)

lemma bex_lessThan_Suc_shift: "(\<exists>j\<in>{..<Suc k}. P j) \<longleftrightarrow> (P 0 \<or> (\<exists>j\<in>{..<k}. P (Suc j)))"
  by (simp add: lessThan_Suc_eq_insert_0)

lemma newton_small_step_0:
  "newton_small_step f df x0 tol 0 \<longleftrightarrow> \<bar>(x0 - f x0 / df x0) - x0\<bar> < tol"
  by (simp add: newton_small_step_def)

lemma newton_small_step_Suc:
  "newton_small_step f df x0 tol (Suc k) = newton_small_step f df (x0 - f x0 / df x0) tol k"
  by (simp add: newton_small_step_def)

lemma newton_converged_at_0:
  "newton_converged_at f df x0 tol 0 \<longleftrightarrow> df x0 \<noteq> 0 \<and> \<bar>(x0 - f x0 / df x0) - x0\<bar> < tol"
  by (simp add: newton_converged_at_def newton_small_step_0)

lemma newton_converged_at_Suc:
  "newton_converged_at f df x0 tol (Suc k) \<longleftrightarrow>
     df x0 \<noteq> 0 \<and> \<not> \<bar>(x0 - f x0 / df x0) - x0\<bar> < tol
     \<and> newton_converged_at f df (x0 - f x0 / df x0) tol k"
  unfolding newton_converged_at_def ball_atMost_Suc_shift ball_lessThan_Suc_shift
  by (auto simp: newton_small_step_0 newton_small_step_Suc)

lemma newton_zero_derivative_at_0:
  "newton_zero_derivative_at f df x0 tol 0 \<longleftrightarrow> df x0 = 0"
  by (simp add: newton_zero_derivative_at_def)

lemma newton_zero_derivative_at_Suc:
  "newton_zero_derivative_at f df x0 tol (Suc k) \<longleftrightarrow>
     df x0 \<noteq> 0 \<and> \<not> \<bar>(x0 - f x0 / df x0) - x0\<bar> < tol
     \<and> newton_zero_derivative_at f df (x0 - f x0 / df x0) tol k"
  unfolding newton_zero_derivative_at_def ball_lessThan_Suc_shift
  by (auto simp: newton_small_step_0 newton_small_step_Suc)

lemma newton_exhausted_0: "newton_exhausted f df x0 tol 0"
  by (simp add: newton_exhausted_def)

lemma newton_exhausted_Suc:
  "newton_exhausted f df x0 tol (Suc n) \<longleftrightarrow>
     df x0 \<noteq> 0 \<and> \<not> \<bar>(x0 - f x0 / df x0) - x0\<bar> < tol
     \<and> newton_exhausted f df (x0 - f x0 / df x0) tol n"
  unfolding newton_exhausted_def ball_lessThan_Suc_shift
  by (auto simp: newton_small_step_0 newton_small_step_Suc)

lemma newton_loop_Suc:
  "newton_loop f df x0 tol (Suc n) =
     (if df x0 = 0 then Inl zero_derivative_error
      else if \<bar>(x0 - f x0 / df x0) - x0\<bar> < tol then Inr (x0 - f x0 / df x0)
      else newton_loop f df (x0 - f x0 / df x0) tol n)"
  by (simp add: py_div_def zero_derivative_error_def Let_def)

lemma newton_loop_Inr_iff:
  "newton_loop f df x0 tol n = Inr x \<longleftrightarrow>
     (\<exists>k\<in>{..<n}. newton_converged_at f df x0 tol k \<and> x = newton_iterate f df x0 (Suc k))"
proof (induction n arbitrary: x0)
  case 0
  show ?case by simp
next
  case (Suc n)
  show ?case
    unfolding newton_loop_Suc bex_lessThan_Suc_shift newton_converged_at_0
      newton_converged_at_Suc
    by (auto simp: Suc.IH)
qed

lemma newton_loop_zero_derivative_iff:
  "newton_loop f df x0 tol n = Inl zero_derivative_error \<longleftrightarrow>
     (\<exists>k\<in>{..<n}. newton_zero_derivative_at f df x0 tol k)"
proof (induction n arbitrary: x0)
  case 0
  show ?case by (simp add: zero_derivative_error_def)
next
  case (Suc n)
  show ?case
    unfolding newton_loop_Suc bex_lessThan_Suc_shift newton_zero_derivative_at_0
      newton_zero_derivative_at_Suc
    by (auto simp: Suc.IH)
qed

lemma newton_errors_distinct: "zero_derivative_error \<noteq> no_convergence_error"
  by (simp add: zero_derivative_error_def no_convergence_error_def)

lemma newton_loop_no_convergence_iff:
  "newton_loop f df x0 tol n = Inl no_convergence_error \<longleftrightarrow> newton_exhausted f df x0 tol n"
proof (induction n arbitrary: x0)
  case 0
  show ?case by (simp add: no_convergence_error_def newton_exhausted_0)
next
  case (Suc n)
  show ?case
    unfolding newton_loop_Suc newton_exhausted_Suc
    by (auto simp: Suc.IH newton_errors_distinct)
qed

lemma newton_loop_errors:
  "newton_loop f df x0 tol n = Inl e \<Longrightarrow> e = zero_derivative_error \<or> e = no_convergence_error"
proof (induction n arbitrary: x0)
  case 0
  then show ?case by (simp add: no_convergence_error_def)
next
  case (Suc n)
  then show ?case
    unfolding newton_loop_Suc by (auto split: if_splits)
qed

text \<open>
  Claim C1. A call of \<open>newton\<close> has exactly three outcomes, each under its own
  condition on the iterates: it returns the iterate \<open>x\<^sub>k\<^sub>+\<^sub>1\<close> of the first
  step \<open>k\<close> within the budget whose size \<open>\<bar>x\<^sub>k\<^sub>+\<^sub>1 - x\<^sub>k\<bar>\<close> is below \<open>tol\<close>
  (no derivative having been zero up to there); it raises the zero-derivative error
  exactly when the derivative is zero at an iterate reached within the budget before
  any small step; it raises the no-convergence error exactly when the budget runs out
  with every derivative nonzero and no step small. No other error is raised.
\<close>

theorem newton_outcomes:
  "(newton f df x0 tol imax = Inr x \<longleftrightarrow>
      (\<exists>k\<in>{..<nat imax}. newton_converged_at f df x0 tol k
                          \<and> x = newton_iterate f df x0 (Suc k)))
   \<and> (newton f df x0 tol imax = Inl zero_derivative_error \<longleftrightarrow>
        (\<exists>k\<in>{..<nat imax}. newton_zero_derivative_at f df x0 tol k))
   \<and> (newton f df x0 tol imax = Inl no_convergence_error \<longleftrightarrow>
        newton_exhausted f df x0 tol (nat imax))
   \<and> (\<forall>e. newton f df x0 tol imax = Inl e \<longrightarrow>
        e = zero_derivative_error \<or> e = no_convergence_error)"
  unfolding newton_def
  by (intro conjI allI impI newton_loop_Inr_iff newton_loop_zero_derivative_iff
      newton_loop_no_convergence_iff newton_loop_errors)


theorem newton_outcomes_witness:
  "newton (\<lambda>x. 2 * x - 2) (\<lambda>x. 2) 0 (1 / 10 ^ 6) 100 = Inr 1
   \<and> newton (\<lambda>x. x * x + 1) (\<lambda>x. 2 * x) 0 (1 / 10 ^ 6) 100 = Inl zero_derivative_error
   \<and> newton (\<lambda>x. 1) (\<lambda>x. 1) 0 (1 / 10 ^ 6) 2 = Inl no_convergence_error"
proof -
  have "newton_converged_at (\<lambda>x. 2 * x - 2) (\<lambda>x. 2) 0 (1 / 10 ^ 6) (Suc 0)
        \<and> (1::real) = newton_iterate (\<lambda>x. 2 * x - 2) (\<lambda>x. 2) 0 (Suc (Suc 0))"
    by (simp add: newton_converged_at_def newton_small_step_def atMost_Suc lessThan_Suc)
  moreover have "Suc 0 \<in> {..<nat 100}"
    by simp
  ultimately have a: "newton (\<lambda>x. 2 * x - 2) (\<lambda>x. 2) 0 (1 / 10 ^ 6) 100 = Inr 1"
    using newton_outcomes [of "\<lambda>x. 2 * x - 2" "\<lambda>x. 2" 0 "1 / 10 ^ 6" 100 1] by blast
  have "newton_zero_derivative_at (\<lambda>x. x * x + 1) (\<lambda>x. 2 * x) 0 (1 / 10 ^ 6) 0"
    by (simp add: newton_zero_derivative_at_def)
  moreover have "0 \<in> {..<nat 100}"
    by simp
  ultimately have b:
    "newton (\<lambda>x. x * x + 1) (\<lambda>x. 2 * x) 0 (1 / 10 ^ 6) 100 = Inl zero_derivative_error"
    using newton_outcomes [of "\<lambda>x. x * x + 1" "\<lambda>x. 2 * x" 0 "1 / 10 ^ 6" 100] by blast
  have "newton_exhausted (\<lambda>x. 1) (\<lambda>x. 1) 0 (1 / 10 ^ 6) (nat 2)"
    by (simp add: newton_exhausted_def newton_small_step_def eval_nat_numeral lessThan_Suc)
  then have c: "newton (\<lambda>x. 1) (\<lambda>x. 1) 0 (1 / 10 ^ 6) 2 = Inl no_convergence_error"
    using newton_outcomes [of "\<lambda>x. 1" "\<lambda>x. 1" 0 "1 / 10 ^ 6" 2] by blast
  from a b c show ?thesis by blast
qed

lemma newton_loop_no_division_by_zero:
  "newton_loop f df x0 tol n \<noteq> Inl ZeroDivisionError"
  using newton_loop_errors [of f df x0 tol n ZeroDivisionError]
  by (auto simp: zero_derivative_error_def no_convergence_error_def)

text \<open>
  Claim C6. The division \<open>f0 / df0\<close> of \<open>newton\<close> is guarded: no call ends in
  a division by zero, and when the derivative is zero at the initial guess a call with
  at least one iteration in its budget raises the zero-derivative error in its first
  iteration.
\<close>

theorem newton_division_guarded:
  "newton f df x0 tol imax \<noteq> Inl ZeroDivisionError
   \<and> (df x0 = 0 \<and> 1 \<le> imax \<longrightarrow> newton f df x0 tol imax = Inl zero_derivative_error)"
proof (intro conjI impI)
  show "newton f df x0 tol imax \<noteq> Inl ZeroDivisionError"
    unfolding newton_def by (rule newton_loop_no_division_by_zero)
next
  assume a: "df x0 = 0 \<and> 1 \<le> imax"
  then obtain n where n: "nat imax = Suc n"
    by (cases "nat imax") auto
  show "newton f df x0 tol imax = Inl zero_derivative_error"
    unfolding newton_def n newton_loop_Suc using a by simp
qed

theorem newton_division_guarded_witness:
  "newton (\<lambda>x. x * x + 1) (\<lambda>x. 2 * x) 0 (1 / 10 ^ 6) 100 = Inl zero_derivative_error
   \<and> newton (\<lambda>x. x * x + 1) (\<lambda>x. 2 * x) 0 (1 / 10 ^ 6) 100 \<noteq> Inl ZeroDivisionError"
proof -
  have "(\<lambda>x. 2 * x) (0::real) = 0 \<and> (1::int) \<le> 100"
    by simp
  then show ?thesis
    using newton_division_guarded [of "\<lambda>x. x * x + 1" "\<lambda>x. 2 * x" 0 "1 / 10 ^ 6" 100]
    by blast
qed

subsection \<open>Secant: the outcomes\<close>

lemma secant_iterate_step:
  "secant_iterate f x0 x1 (Suc k) =
     (snd (secant_iterate f x0 x1 k),
      secant_update f (fst (secant_iterate f x0 x1 k)) (snd (secant_iterate f x0 x1 k)))"
proof (induction k arbitrary: x0 x1)
  case 0
  show ?case by simp
next
  case (Suc k)
  show ?case
    using Suc.IH [of x1 "secant_update f x0 x1"] by simp
qed

lemma secant_values_coincide_0: "secant_values_coincide f x0 x1 0 \<longleftrightarrow> f x0 = f x1"
  by (simp add: secant_values_coincide_def)

lemma secant_values_coincide_Suc:
  "secant_values_coincide f x0 x1 (Suc k) =
     secant_values_coincide f x1 (secant_update f x0 x1) k"
  by (simp add: secant_values_coincide_def)

lemma secant_small_step_0:
  "secant_small_step f x0 x1 tol 0 \<longleftrightarrow> \<bar>secant_update f x0 x1 - x1\<bar> < tol"
  by (simp add: secant_small_step_def)

lemma secant_small_step_Suc:
  "secant_small_step f x0 x1 tol (Suc k) = secant_small_step f x1 (secant_update f x0 x1) tol k"
  by (simp add: secant_small_step_def)

lemma secant_converged_at_0:
  "secant_converged_at f x0 x1 tol 0 \<longleftrightarrow> f x0 \<noteq> f x1 \<and> \<bar>secant_update f x0 x1 - x1\<bar> < tol"
  by (simp add: secant_converged_at_def secant_small_step_0 secant_values_coincide_0)

lemma secant_converged_at_Suc:
  "secant_converged_at f x0 x1 tol (Suc k) \<longleftrightarrow>
     f x0 \<noteq> f x1 \<and> \<not> \<bar>secant_update f x0 x1 - x1\<bar> < tol
     \<and> secant_converged_at f x1 (secant_update f x0 x1) tol k"
  unfolding secant_converged_at_def ball_atMost_Suc_shift ball_lessThan_Suc_shift
  by (auto simp: secant_small_step_0 secant_small_step_Suc secant_values_coincide_0
      secant_values_coincide_Suc)

lemma secant_coincide_at_0: "secant_coincide_at f x0 x1 tol 0 \<longleftrightarrow> f x0 = f x1"
  by (simp add: secant_coincide_at_def secant_values_coincide_0)

lemma secant_coincide_at_Suc:
  "secant_coincide_at f x0 x1 tol (Suc k) \<longleftrightarrow>
     f x0 \<noteq> f x1 \<and> \<not> \<bar>secant_update f x0 x1 - x1\<bar> < tol
     \<and> secant_coincide_at f x1 (secant_update f x0 x1) tol k"
  unfolding secant_coincide_at_def ball_lessThan_Suc_shift
  by (auto simp: secant_small_step_0 secant_small_step_Suc secant_values_coincide_0
      secant_values_coincide_Suc)

lemma secant_exhausted_0: "secant_exhausted f x0 x1 tol 0"
  by (simp add: secant_exhausted_def)

lemma secant_exhausted_Suc:
  "secant_exhausted f x0 x1 tol (Suc n) \<longleftrightarrow>
     f x0 \<noteq> f x1 \<and> \<not> \<bar>secant_update f x0 x1 - x1\<bar> < tol
     \<and> secant_exhausted f x1 (secant_update f x0 x1) tol n"
  unfolding secant_exhausted_def ball_lessThan_Suc_shift
  by (auto simp: secant_small_step_0 secant_small_step_Suc secant_values_coincide_0
      secant_values_coincide_Suc)

lemma secant_loop_Suc:
  "secant_loop f x0 x1 tol (Suc n) =
     (if f x0 = f x1 then Inl secant_division_error
      else if \<bar>secant_update f x0 x1 - x1\<bar> < tol then Inr (secant_update f x0 x1)
      else secant_loop f x1 (secant_update f x0 x1) tol n)"
  by (simp add: py_div_def secant_division_error_def secant_update_def Let_def)

lemma secant_errors_distinct: "secant_division_error \<noteq> no_convergence_error"
  by (simp add: secant_division_error_def no_convergence_error_def)

lemma secant_loop_Inr_iff:
  "secant_loop f x0 x1 tol n = Inr x \<longleftrightarrow>
     (\<exists>k\<in>{..<n}. secant_converged_at f x0 x1 tol k
                  \<and> x = snd (secant_iterate f x0 x1 (Suc k)))"
proof (induction n arbitrary: x0 x1)
  case 0
  show ?case by simp
next
  case (Suc n)
  show ?case
    unfolding secant_loop_Suc bex_lessThan_Suc_shift secant_converged_at_0
      secant_converged_at_Suc
    by (auto simp: Suc.IH)
qed

lemma secant_loop_division_iff:
  "secant_loop f x0 x1 tol n = Inl secant_division_error \<longleftrightarrow>
     (\<exists>k\<in>{..<n}. secant_coincide_at f x0 x1 tol k)"
proof (induction n arbitrary: x0 x1)
  case 0
  show ?case by (simp add: secant_division_error_def)
next
  case (Suc n)
  show ?case
    unfolding secant_loop_Suc bex_lessThan_Suc_shift secant_coincide_at_0
      secant_coincide_at_Suc
    by (auto simp: Suc.IH)
qed

lemma secant_loop_no_convergence_iff:
  "secant_loop f x0 x1 tol n = Inl no_convergence_error \<longleftrightarrow> secant_exhausted f x0 x1 tol n"
proof (induction n arbitrary: x0 x1)
  case 0
  show ?case by (simp add: no_convergence_error_def secant_exhausted_0)
next
  case (Suc n)
  show ?case
    unfolding secant_loop_Suc secant_exhausted_Suc
    by (auto simp: Suc.IH secant_errors_distinct)
qed

lemma secant_loop_errors:
  "secant_loop f x0 x1 tol n = Inl e \<Longrightarrow> e = secant_division_error \<or> e = no_convergence_error"
proof (induction n arbitrary: x0 x1)
  case 0
  then show ?case by (simp add: no_convergence_error_def)
next
  case (Suc n)
  then show ?case
    unfolding secant_loop_Suc by (auto split: if_splits)
qed

text \<open>
  Claim C5. A call of \<open>secant\<close> raises its division error exactly when, at an
  iteration reached within the budget, the function values at the two current points
  coincide. Otherwise the points follow the finite-difference update
  \<open>x2 = x1 - f x1 * (x1 - x0) / (f x1 - f x0)\<close>; the call returns \<open>x2\<close> at the first
  iteration where \<open>\<bar>x2 - x1\<bar> < tol\<close> and raises the no-convergence error when the budget
  runs out first.
\<close>

theorem secant_outcomes:
  "(secant f x0 x1 tol imax = Inl secant_division_error \<longleftrightarrow>
      (\<exists>k\<in>{..<nat imax}. secant_coincide_at f x0 x1 tol k))
   \<and> (secant f x0 x1 tol imax = Inr x \<longleftrightarrow>
        (\<exists>k\<in>{..<nat imax}. secant_converged_at f x0 x1 tol k
                            \<and> x = snd (secant_iterate f x0 x1 (Suc k))))
   \<and> (secant f x0 x1 tol imax = Inl no_convergence_error \<longleftrightarrow>
        secant_exhausted f x0 x1 tol (nat imax))
   \<and> (\<forall>e. secant f x0 x1 tol imax = Inl e \<longrightarrow>
        e = secant_division_error \<or> e = no_convergence_error)
   \<and> (\<forall>k. secant_iterate f x0 x1 (Suc k) =
        (snd (secant_iterate f x0 x1 k),
         secant_update f (fst (secant_iterate f x0 x1 k)) (snd (secant_iterate f x0 x1 k))))
   \<and> (\<forall>a b. secant_update f a b = b - f b * (b - a) / (f b - f a))"
  unfolding secant_def
  by (intro conjI allI impI secant_loop_Inr_iff secant_loop_division_iff
      secant_loop_no_convergence_iff secant_loop_errors secant_iterate_step secant_update_def)

theorem secant_outcomes_witness:
  "secant (\<lambda>x. 2 * x - 2) 0 3 (1 / 10 ^ 6) 100 = Inr 1
   \<and> secant (\<lambda>x. x * x) (- 1) 1 (1 / 10 ^ 6) 100 = Inl secant_division_error
   \<and> secant (\<lambda>x. x) 0 1 (1 / 10 ^ 6) 0 = Inl no_convergence_error"
proof -
  have "secant_converged_at (\<lambda>x. 2 * x - 2) 0 3 (1 / 10 ^ 6) (Suc 0)
        \<and> (1::real) = snd (secant_iterate (\<lambda>x. 2 * x - 2) 0 3 (Suc (Suc 0)))"
    by (simp add: secant_converged_at_def secant_small_step_def secant_values_coincide_def
        secant_update_def atMost_Suc lessThan_Suc)
  moreover have "Suc 0 \<in> {..<nat 100}"
    by simp
  ultimately have a: "secant (\<lambda>x. 2 * x - 2) 0 3 (1 / 10 ^ 6) 100 = Inr 1"
    using secant_outcomes [of "\<lambda>x. 2 * x - 2" 0 3 "1 / 10 ^ 6" 100 1] by blast
  have "secant_coincide_at (\<lambda>x. x * x) (- 1) 1 (1 / 10 ^ 6) 0"
    by (simp add: secant_coincide_at_def secant_values_coincide_def)
  moreover have "0 \<in> {..<nat 100}"
    by simp
  ultimately have b:
    "secant (\<lambda>x. x * x) (- 1) 1 (1 / 10 ^ 6) 100 = Inl secant_division_error"
    using secant_outcomes [of "\<lambda>x. x * x" "- 1" 1 "1 / 10 ^ 6" 100] by blast
  have "secant_exhausted (\<lambda>x. x) 0 1 (1 / 10 ^ 6) (nat 0)"
    by (simp add: secant_exhausted_def)
  then have c: "secant (\<lambda>x. x) 0 1 (1 / 10 ^ 6) 0 = Inl no_convergence_error"
    using secant_outcomes [of "\<lambda>x. x" 0 1 "1 / 10 ^ 6" 0] by blast
  from a b c show ?thesis by blast
qed

subsection \<open>Signatures\<close>

text \<open>
  Claim C9, as stated, asks every solver for an optional maximum-iteration parameter
  with default 100. \<open>bisection\<close> has no such parameter: its only default is the
  tolerance.
\<close>

theorem bisection_has_no_iteration_parameter:
  "PyInt 100 \<notin> set (default_values bisection_signature)"
  by (simp add: default_values_def optional_parameters_def bisection_signature_def
      List.map_filter_simps)

text \<open>
  Claim C9, amended. Every solver has an optional tolerance \<open>tol\<close> with default
  \<open>1e-6\<close>. \<open>newton\<close> and \<open>secant\<close> have an optional iteration budget \<open>imax\<close> with
  default 100, \<open>newton_system\<close> has \<open>max_iter\<close> with default 100, and these are all the
  optional parameters; \<open>bisection\<close> has no iteration budget.
\<close>

theorem solver_optional_parameters:
  "optional_parameters bisection_signature = [(''tol'', PyFloat (1 / 10 ^ 6))]
   \<and> optional_parameters newton_signature =
       [(''tol'', PyFloat (1 / 10 ^ 6)), (''imax'', PyInt 100)]
   \<and> optional_parameters secant_signature =
       [(''tol'', PyFloat (1 / 10 ^ 6)), (''imax'', PyInt 100)]
   \<and> optional_parameters newton_system_signature =
       [(''tol'', PyFloat (1 / 10 ^ 6)), (''max_iter'', PyInt 100)]"
  by (simp add: optional_parameters_def bisection_signature_def newton_signature_def
      secant_signature_def newton_system_signature_def List.map_filter_simps)

subsection \<open>Bisection on doubles\<close>

lemmas double_eval = round_double_def round_in_binade_def round_to_multiple_def
  overflow_check_def binade_def binade_search.simps pow2_def round_half_even_def
  round_from_floor_def Let_def fsub_def fdiv_def fgt_def fge_def default_tol_def

lemma default_tol_value: "default_tol = Finite (4722366482869645 / 4722366482869645213696)"
  by (simp add: double_eval)


text \<open>
  The example of the notebook, \<^verbatim>\<open>bisection(f, 1, 2)\<close> for \<open>f x = x\<^sup>3 - x - 2\<close> (the cube
  taken as \<open>x * x * x\<close>): the model returns \<open>1595283 / 2\<^sup>2\<^sup>0\<close>, the value
  \<^verbatim>\<open>1.5213804244995117\<close> that the notebook prints.
\<close>

lemma notebook_example:
  "bisection (\<lambda>x. fsub (fsub (fmul (fmul x x) x) x) (Finite 2)) (Finite 1) (Finite 2) default_tol
   = Some (Inr (Finite (1595283 / 1048576)))"
  by (simp add: bisection_def bisection_loop.simps double_eval)


text \<open>
  Claim C7. The claim is that each pass halves the bracket and that the loop ends for
  every \<open>tol > 0\<close> on a bracket with a sign change. On doubles it does not:
  for \<open>f x = x - 2\<^sup>5\<^sup>3 - 1\<close> on the bracket \<open>[2\<^sup>5\<^sup>3, 2\<^sup>5\<^sup>3 + 2]\<close> of two neighbouring
  doubles, with the default tolerance, the midpoint \<open>(l + h) / 2\<close> rounds to \<open>l\<close>, the
  pass leaves the bracket as it was, and the call never returns.
\<close>

theorem bisection_never_returns:
  "bisection (\<lambda>x. fsub (fsub x (Finite (2 ^ 53))) (Finite 1))
     (Finite (2 ^ 53)) (Finite (2 ^ 53 + 2)) default_tol = None
   \<and> fless ((\<lambda>x. fsub (fsub x (Finite (2 ^ 53))) (Finite 1)) (Finite (2 ^ 53))) (Finite 0)
   \<and> fless (Finite 0) ((\<lambda>x. fsub (fsub x (Finite (2 ^ 53))) (Finite 1)) (Finite (2 ^ 53 + 2)))
   \<and> fless (Finite 0) default_tol
   \<and> fdiv (fadd (Finite (2 ^ 53)) (Finite (2 ^ 53 + 2))) (Finite 2) = Inr (Finite (2 ^ 53))
   \<and> list_all is_double [Finite (2 ^ 53), Finite (2 ^ 53 + 2), Finite 1, default_tol]"
proof -
  let ?f = "\<lambda>x. fsub (fsub x (Finite (2 ^ 53))) (Finite 1)"
  let ?l = "Finite (2 ^ 53)" and ?h = "Finite (2 ^ 53 + 2)"
  have mid: "fdiv (fadd ?l ?h) (Finite 2) = Inr ?l"
    by (simp add: double_eval)
  have fl: "?f ?l = Finite (- 1)"
    by (simp add: double_eval)
  have fh: "?f ?h = Finite 1"
    by (simp add: double_eval)
  have wide: "fgt (fsub ?h ?l) (fmul (Finite 2) default_tol)"
    by (simp add: double_eval)
  have up: "fgt (fmul (Finite (- 1)) (Finite (- 1))) (Finite 0)"
    by (simp add: double_eval)
  have stuck: "\<not> (f = ?f \<and> l = ?l \<and> h = ?h \<and> tol = default_tol)"
    if ret: "bisection_loop f l h tol = Some y" for f l h tol y
  proof (rule bisection_loop.raw_induct
      [where P = "\<lambda>f l h tol y. \<not> (f = ?f \<and> l = ?l \<and> h = ?h \<and> tol = default_tol)",
        OF _ ret])
    fix g :: "(double \<Rightarrow> double) \<Rightarrow> double \<Rightarrow> double \<Rightarrow> double \<Rightarrow> (error + double) option"
      and f l h tol y
    assume ih: "\<And>f l h tol y. g f l h tol = Some y \<Longrightarrow>
        \<not> (f = ?f \<and> l = ?l \<and> h = ?h \<and> tol = default_tol)"
    assume body: "(if fgt (fsub h l) (fmul (Finite 2) tol) then
        (case fdiv (fadd l h) (Finite 2) of
           Inl e \<Rightarrow> Some (Inl e)
         | Inr m \<Rightarrow>
             if feq (f m) (Finite 0) then Some (Inr m)
             else if fgt (fmul (f l) (f m)) (Finite 0) then g f m h tol
             else g f l m tol)
      else
        (case fdiv (fadd l h) (Finite 2) of
           Inl e \<Rightarrow> Some (Inl e)
         | Inr r \<Rightarrow> Some (Inr r))) = Some y"
    show "\<not> (f = ?f \<and> l = ?l \<and> h = ?h \<and> tol = default_tol)"
    proof
      assume eq: "f = ?f \<and> l = ?l \<and> h = ?h \<and> tol = default_tol"
      have "g ?f ?l ?h default_tol = Some y"
        using body unfolding eq [THEN conjunct1] eq [THEN conjunct2, THEN conjunct1]
          eq [THEN conjunct2, THEN conjunct2, THEN conjunct1]
          eq [THEN conjunct2, THEN conjunct2, THEN conjunct2]
        by (simp only: wide mid fl up if_True sum.case feq.simps double.simps)
          (simp add: up)
      from ih [OF this] show False
        by simp
    qed
  qed
  have "bisection_loop ?f ?l ?h default_tol = None"
  proof (cases "bisection_loop ?f ?l ?h default_tol")
    case None
    then show ?thesis .
  next
    case (Some y)
    from stuck [OF this] show ?thesis
      by simp
  qed
  moreover have "\<not> fge (fmul (?f ?l) (?f ?h)) (Finite 0)"
    unfolding fl fh by (simp add: double_eval)
  ultimately have "bisection ?f ?l ?h default_tol = None"
    by (simp only: bisection_def if_False)
  moreover have "fless (?f ?l) (Finite 0)" "fless (Finite 0) (?f ?h)"
    unfolding fl fh by simp_all
  moreover have "fless (Finite 0) default_tol"
    by (simp add: double_eval)
  moreover have "list_all is_double [Finite (2 ^ 53), Finite (2 ^ 53 + 2), Finite 1, default_tol]"
    by (simp add: is_double_def double_eval)
  ultimately show ?thesis
    using mid by blast
qed


text \<open>
  Claim C2. The claim is that the returned value is within \<open>tol\<close> of a root. For
  \<open>f x = (x - 0.625) * 2\<^sup>-\<^sup>5\<^sup>3\<^sup>6\<close> on \<open>[0, 1]\<close>, continuous and increasing with its one
  root at \<open>0.625\<close>, the call with \<open>tol = 0.125\<close> returns \<open>0.375\<close>: in the first pass
  the product \<open>f l * f m\<close> of two negative values underflows to zero, the test
  \<open>f l * f m > 0\<close> fails, and the half \<open>[0, 0.5]\<close> without the root is kept.
\<close>

theorem bisection_misses_root:
  "bisection (\<lambda>x. fmul (fsub x (Finite (5 / 8))) (Finite (1 / 2 ^ 536)))
     (Finite 0) (Finite 1) (Finite (1 / 8)) = Some (Inr (Finite (3 / 8)))
   \<and> fless ((\<lambda>x. fmul (fsub x (Finite (5 / 8))) (Finite (1 / 2 ^ 536))) (Finite 0)) (Finite 0)
   \<and> fless (Finite 0) ((\<lambda>x. fmul (fsub x (Finite (5 / 8))) (Finite (1 / 2 ^ 536))) (Finite 1))
   \<and> (\<lambda>x. fmul (fsub x (Finite (5 / 8))) (Finite (1 / 2 ^ 536))) (Finite (5 / 8)) = Finite 0
   \<and> fless ((\<lambda>x. fmul (fsub x (Finite (5 / 8))) (Finite (1 / 2 ^ 536))) (Finite (1 / 2)))
        (Finite 0)
   \<and> fmul ((\<lambda>x. fmul (fsub x (Finite (5 / 8))) (Finite (1 / 2 ^ 536))) (Finite 0))
        ((\<lambda>x. fmul (fsub x (Finite (5 / 8))) (Finite (1 / 2 ^ 536))) (Finite (1 / 2)))
      = Finite 0
   \<and> \<bar>3 / 8 - 5 / 8\<bar> > (1 / 8 :: real)
   \<and> list_all is_double
        [Finite 0, Finite 1, Finite (1 / 8), Finite (5 / 8), Finite (1 / 2 ^ 536)]"
  by (simp add: bisection_def bisection_loop.simps is_double_def double_eval)

text \<open>
  Claim C3. The claim is that the input error is raised exactly when \<open>f l\<close> and \<open>f h\<close>
  are not of opposite signs. For \<open>f x = - x * 2\<^sup>-\<^sup>6\<^sup>0\<^sup>0\<close> on \<open>[-1, 1]\<close> the values
  \<open>2\<^sup>-\<^sup>6\<^sup>0\<^sup>0\<close> and \<open>- 2\<^sup>-\<^sup>6\<^sup>0\<^sup>0\<close> are of opposite signs, their product underflows to zero,
  and the error is raised. For \<open>f x = x * 2\<^sup>6\<^sup>0\<^sup>0 * 2\<^sup>6\<^sup>0\<^sup>0\<close> on \<open>[0, 1]\<close> the value at \<open>0\<close>
  is zero and the value at 1 overflows to infinity; their product is not a number, no
  comparison with it holds, and the call goes on to the loop for every \<open>tol\<close> (with
  \<open>tol = 0.25\<close> it returns \<open>0.25\<close>).
\<close>

theorem bisection_validation_fails:
  "bisection (\<lambda>x. fmul (fneg x) (Finite (1 / 2 ^ 600))) (Finite (- 1)) (Finite 1) default_tol
     = Some (Inl bisection_input_error)
   \<and> fless (Finite 0) ((\<lambda>x. fmul (fneg x) (Finite (1 / 2 ^ 600))) (Finite (- 1)))
   \<and> fless ((\<lambda>x. fmul (fneg x) (Finite (1 / 2 ^ 600))) (Finite 1)) (Finite 0)
   \<and> bisection (\<lambda>x. fmul (fmul x (Finite (2 ^ 600))) (Finite (2 ^ 600))) (Finite 0) (Finite 1) tol
       = bisection_loop (\<lambda>x. fmul (fmul x (Finite (2 ^ 600))) (Finite (2 ^ 600)))
           (Finite 0) (Finite 1) tol
   \<and> bisection (\<lambda>x. fmul (fmul x (Finite (2 ^ 600))) (Finite (2 ^ 600)))
       (Finite 0) (Finite 1) (Finite (1 / 4)) = Some (Inr (Finite (1 / 4)))
   \<and> (\<lambda>x. fmul (fmul x (Finite (2 ^ 600))) (Finite (2 ^ 600))) (Finite 0) = Finite 0
   \<and> (\<lambda>x. fmul (fmul x (Finite (2 ^ 600))) (Finite (2 ^ 600))) (Finite 1) = PosInf
   \<and> list_all is_double
        [Finite (- 1), Finite 0, Finite 1, Finite (1 / 4), Finite (1 / 2 ^ 600),
         Finite (2 ^ 600), default_tol]"
proof -
  let ?g = "\<lambda>x. fmul (fneg x) (Finite (1 / 2 ^ 600))"
  let ?k = "\<lambda>x. fmul (fmul x (Finite (2 ^ 600))) (Finite (2 ^ 600))"
  have g1: "?g (Finite (- 1)) = Finite (1 / 2 ^ 600)" and g2: "?g (Finite 1) = Finite (- (1 / 2 ^ 600))"
    by (simp_all add: double_eval)
  have under: "fmul (Finite (1 / 2 ^ 600)) (Finite (- (1 / 2 ^ 600))) = Finite 0"
    by (simp add: double_eval)
  have a: "bisection ?g (Finite (- 1)) (Finite 1) default_tol = Some (Inl bisection_input_error)"
    unfolding bisection_def g1 g2 under by (simp add: fge_def bisection_input_error_def)
  have b: "fless (Finite 0) (?g (Finite (- 1)))" "fless (?g (Finite 1)) (Finite 0)"
    unfolding g1 g2 by simp_all
  have k0: "?k (Finite 0) = Finite 0" and k1: "?k (Finite 1) = PosInf"
    by (simp_all add: double_eval)
  have c: "bisection ?k (Finite 0) (Finite 1) tol = bisection_loop ?k (Finite 0) (Finite 1) tol"
    unfolding bisection_def k0 k1 by (simp add: fge_def)
  have d: "bisection ?k (Finite 0) (Finite 1) (Finite (1 / 4)) = Some (Inr (Finite (1 / 4)))"
    by (simp add: bisection_def bisection_loop.simps double_eval)
  have e: "list_all is_double
        [Finite (- 1), Finite 0, Finite 1, Finite (1 / 4), Finite (1 / 2 ^ 600),
         Finite (2 ^ 600), default_tol]"
    by (simp add: is_double_def double_eval)
  from a b c d e k0 k1 show ?thesis
    by blast
qed

subsection \<open>Newton-Raphson for systems: the outcomes\<close>

lemma newton_system_loop_Suc:
  "newton_system_loop solve nrm F J X0 tol (Suc n) =
     (case newton_system_step solve F J X0 of
        Inl e \<Rightarrow> Inl e
      | Inr (dX, X) \<Rightarrow>
          if fless (nrm dX) tol then Inr X else newton_system_loop solve nrm F J X tol n)"
  by (simp add: newton_system_step_def Let_def split: sum.splits)

lemma system_step_at_0: "system_step_at solve F J X0 0 = newton_system_step solve F J X0"
  by (simp add: system_step_at_def)

lemma system_step_at_Suc:
  "system_step_at solve F J X0 (Suc k) = system_step_at solve F J (system_next solve F J X0) k"
  by (simp add: system_step_at_def)

lemma system_small_step_0:
  "system_small_step solve nrm F J X0 tol 0 \<longleftrightarrow>
     fless (nrm (system_correction solve F J X0)) tol"
  by (simp add: system_small_step_def)

lemma system_small_step_Suc:
  "system_small_step solve nrm F J X0 tol (Suc k) =
     system_small_step solve nrm F J (system_next solve F J X0) tol k"
  by (simp add: system_small_step_def)

lemma system_converged_at_0:
  "system_converged_at solve nrm F J X0 tol 0 \<longleftrightarrow>
     \<not> isl (newton_system_step solve F J X0)
     \<and> fless (nrm (system_correction solve F J X0)) tol"
  by (simp add: system_converged_at_def system_step_at_0 system_small_step_0)

lemma system_converged_at_Suc:
  "system_converged_at solve nrm F J X0 tol (Suc k) \<longleftrightarrow>
     \<not> isl (newton_system_step solve F J X0)
     \<and> \<not> fless (nrm (system_correction solve F J X0)) tol
     \<and> system_converged_at solve nrm F J (system_next solve F J X0) tol k"
  unfolding system_converged_at_def ball_atMost_Suc_shift ball_lessThan_Suc_shift
  by (auto simp: system_step_at_0 system_step_at_Suc system_small_step_0 system_small_step_Suc)

lemma system_failed_at_0:
  "system_failed_at solve nrm F J X0 tol 0 e \<longleftrightarrow> newton_system_step solve F J X0 = Inl e"
  by (simp add: system_failed_at_def system_step_at_0)

lemma system_failed_at_Suc:
  "system_failed_at solve nrm F J X0 tol (Suc k) e \<longleftrightarrow>
     \<not> isl (newton_system_step solve F J X0)
     \<and> \<not> fless (nrm (system_correction solve F J X0)) tol
     \<and> system_failed_at solve nrm F J (system_next solve F J X0) tol k e"
  unfolding system_failed_at_def ball_lessThan_Suc_shift
  by (auto simp: system_step_at_0 system_step_at_Suc system_small_step_0 system_small_step_Suc)

lemma system_exhausted_0: "system_exhausted solve nrm F J X0 tol 0"
  by (simp add: system_exhausted_def)

lemma system_exhausted_Suc:
  "system_exhausted solve nrm F J X0 tol (Suc n) \<longleftrightarrow>
     \<not> isl (newton_system_step solve F J X0)
     \<and> \<not> fless (nrm (system_correction solve F J X0)) tol
     \<and> system_exhausted solve nrm F J (system_next solve F J X0) tol n"
  unfolding system_exhausted_def ball_lessThan_Suc_shift
  by (auto simp: system_step_at_0 system_step_at_Suc system_small_step_0 system_small_step_Suc)

lemma newton_system_loop_step:
  "newton_system_loop solve nrm F J X0 tol (Suc n) =
     (case newton_system_step solve F J X0 of
        Inl e \<Rightarrow> Inl e
      | Inr p \<Rightarrow>
          if fless (nrm (system_correction solve F J X0)) tol
          then Inr (system_next solve F J X0)
          else newton_system_loop solve nrm F J (system_next solve F J X0) tol n)"
  unfolding newton_system_loop_Suc
  by (simp add: system_correction_def system_next_def split: sum.splits prod.splits)

lemma newton_system_loop_Inr_iff:
  "newton_system_loop solve nrm F J X0 tol n = Inr X \<longleftrightarrow>
     (\<exists>k\<in>{..<n}. system_converged_at solve nrm F J X0 tol k
                  \<and> X = newton_system_iterate solve F J X0 (Suc k))"
proof (induction n arbitrary: X0)
  case 0
  show ?case by simp
next
  case (Suc n)
  show ?case
    unfolding newton_system_loop_step bex_lessThan_Suc_shift system_converged_at_0
      system_converged_at_Suc
    by (cases "newton_system_step solve F J X0") (auto simp: Suc.IH)
qed

lemma newton_system_loop_Inl_iff:
  "newton_system_loop solve nrm F J X0 tol n = Inl e \<longleftrightarrow>
     (\<exists>k\<in>{..<n}. system_failed_at solve nrm F J X0 tol k e)
     \<or> (e = no_convergence_error \<and> system_exhausted solve nrm F J X0 tol n)"
proof (induction n arbitrary: X0)
  case 0
  show ?case by (auto simp: no_convergence_error_def system_exhausted_0)
next
  case (Suc n)
  show ?case
    unfolding newton_system_loop_step bex_lessThan_Suc_shift system_failed_at_0
      system_failed_at_Suc system_exhausted_Suc
    by (cases "newton_system_step solve F J X0") (auto simp: Suc.IH)
qed

lemma newton_system_step_Inr_iff:
  "newton_system_step solve F J Y = Inr (dX, Y') \<longleftrightarrow>
     solve (J Y) (np_neg (F Y)) = Inr dX \<and> np_add Y dX = Inr Y'"
  by (auto simp: newton_system_step_def split: sum.splits)

lemma newton_system_step_Inl_iff:
  "newton_system_step solve F J Y = Inl e \<longleftrightarrow>
     solve (J Y) (np_neg (F Y)) = Inl e
     \<or> (\<exists>dX. solve (J Y) (np_neg (F Y)) = Inr dX \<and> np_add Y dX = Inl e)"
  by (auto simp: newton_system_step_def split: sum.splits)


text \<open>
  Claim C4, as stated, has the call fail with the error of the linear solver whenever
  the Jacobian is singular at an iterate. For \<open>F X = [49 x + y - 1, 49 x + y - 1]\<close>
  with the Jacobian \<open>[[49, 1], [49, 1]]\<close>, singular everywhere, and \<open>X0 = [0, 0]\<close> the
  factorisation computes the multiplier \<open>49 * (1 / 49) = 1 - 2\<^sup>-\<^sup>5\<^sup>3\<close> and the second pivot
  \<open>2\<^sup>-\<^sup>5\<^sup>3\<close>, not zero: the solver returns \<open>[0, 1]\<close>, and the call returns \<open>[0, 1]\<close>.
\<close>

theorem newton_system_singular_counterexample:
  "newton_system dgesv2 linalg_norm singular_F singular_J [Finite 0, Finite 0] default_tol 100
     = Inr [Finite 0, Finite 1]
   \<and> singular2 (singular_J [Finite 0, Finite 0])
   \<and> singular2 (singular_J [Finite 0, Finite 1])
   \<and> dgesv2 (singular_J [Finite 0, Finite 0]) (np_neg (singular_F [Finite 0, Finite 0]))
       = Inr [Finite 0, Finite 1]"
proof -
  have s1: "dgesv2 [[Finite 49, Finite 1], [Finite 49, Finite 1]] [Finite 1, Finite 1]
      = Inr [Finite 0, Finite 1]"
    by (simp add: lu_solve2_def lu_scale_def forward2_def backward2_def double_eval)
  have s2: "dgesv2 [[Finite 49, Finite 1], [Finite 49, Finite 1]] [Finite 0, Finite 0]
      = Inr [Finite 0, Finite 0]"
    by (simp add: lu_solve2_def lu_scale_def forward2_def backward2_def double_eval)
  have n1: "linalg_norm [Finite 0, Finite 1] = Finite 1"
    by (simp add: linalg_norm_def double_eval)
  have n2: "linalg_norm [Finite 0, Finite 0] = Finite 0"
    by (simp add: linalg_norm_def double_eval)
  have tol: "\<not> fless (Finite 1) default_tol" "fless (Finite 0) default_tol"
    by (simp_all add: double_eval)
  have neg0: "np_neg (singular_F [Finite 0, Finite 0]) = [Finite 1, Finite 1]"
    by (simp add: np_neg_def double_eval)
  have neg1: "np_neg (singular_F [Finite 0, Finite 1]) = [Finite 0, Finite 0]"
    by (simp add: np_neg_def double_eval)
  have add0: "np_add [Finite 0, Finite 0] [Finite 0, Finite 1] = Inr [Finite 0, Finite 1]"
    by (simp add: np_add_def double_eval)
  have add1: "np_add [Finite 0, Finite 1] [Finite 0, Finite 0] = Inr [Finite 0, Finite 1]"
    by (simp add: np_add_def double_eval)
  have st0: "newton_system_step dgesv2 singular_F singular_J [Finite 0, Finite 0]
      = Inr ([Finite 0, Finite 1], [Finite 0, Finite 1])"
    unfolding newton_system_step_def neg0 singular_J_def s1 by (simp add: add0)
  have st1: "newton_system_step dgesv2 singular_F singular_J [Finite 0, Finite 1]
      = Inr ([Finite 0, Finite 0], [Finite 0, Finite 1])"
    unfolding newton_system_step_def neg1 singular_J_def s2 by (simp add: add1)
  have budget: "nat 100 = Suc (Suc 98)"
    by simp
  have "newton_system dgesv2 linalg_norm singular_F singular_J [Finite 0, Finite 0]
      default_tol 100 = Inr [Finite 0, Finite 1]"
    unfolding newton_system_def budget newton_system_loop_Suc st0
    by (simp add: n1 n2 tol newton_system_loop_Suc st1)
  moreover have "singular2 (singular_J [Finite 0, Finite 0])"
    "singular2 (singular_J [Finite 0, Finite 1])"
    by (simp_all add: singular_J_def)
  moreover have "dgesv2 (singular_J [Finite 0, Finite 0])
      (np_neg (singular_F [Finite 0, Finite 0])) = Inr [Finite 0, Finite 1]"
    unfolding neg0 singular_J_def by (rule s1)
  ultimately show ?thesis
    by blast
qed


text \<open>
  Claim C4, amended. Each iteration of \<open>newton_system\<close> hands \<open>J X\<close> and \<open>- F X\<close> to
  the linear solver, takes what it returns as the correction \<open>dX\<close> and moves to
  \<open>X + dX\<close>. The call returns the moved point at the first iteration within the budget
  where the norm of \<open>dX\<close> is below \<open>tol\<close>; it raises the no-convergence error when the
  budget runs out first; it fails with an error of the solver (or of the addition)
  exactly when that error is raised at an iterate reached within the budget. Whether
  the solver raises on a singular Jacobian is the solver's matter.
\<close>

theorem newton_system_outcomes:
  "(newton_system solve nrm F J X0 tol max_iter = Inr X \<longleftrightarrow>
      (\<exists>k\<in>{..<nat max_iter}. system_converged_at solve nrm F J X0 tol k
                              \<and> X = newton_system_iterate solve F J X0 (Suc k)))
   \<and> (newton_system solve nrm F J X0 tol max_iter = Inl e \<longleftrightarrow>
        (\<exists>k\<in>{..<nat max_iter}. system_failed_at solve nrm F J X0 tol k e)
        \<or> (e = no_convergence_error \<and> system_exhausted solve nrm F J X0 tol (nat max_iter)))
   \<and> (newton_system_step solve F J Y = Inr (dX, Y') \<longleftrightarrow>
        solve (J Y) (np_neg (F Y)) = Inr dX \<and> np_add Y dX = Inr Y')
   \<and> (newton_system_step solve F J Y = Inl e' \<longleftrightarrow>
        solve (J Y) (np_neg (F Y)) = Inl e'
        \<or> (\<exists>dX. solve (J Y) (np_neg (F Y)) = Inr dX \<and> np_add Y dX = Inl e'))"
  unfolding newton_system_def
  by (intro conjI newton_system_loop_Inr_iff newton_system_loop_Inl_iff
      newton_system_step_Inr_iff newton_system_step_Inl_iff)

theorem newton_system_outcomes_witness:
  "newton_system dgesv2 linalg_norm shift_F identity_J [Finite 0, Finite 0] default_tol 100
     = Inr [Finite 1, Finite 0]
   \<and> newton_system dgesv2 linalg_norm shift_F ones_J [Finite 0, Finite 0] default_tol 100
     = Inl linear_solve_error"
proof -
  have s1: "dgesv2 [[Finite 1, Finite 0], [Finite 0, Finite 1]] [Finite 1, Finite 0]
      = Inr [Finite 1, Finite 0]"
    by (simp add: lu_solve2_def lu_scale_def forward2_def backward2_def double_eval)
  have s2: "dgesv2 [[Finite 1, Finite 0], [Finite 0, Finite 1]] [Finite 0, Finite 0]
      = Inr [Finite 0, Finite 0]"
    by (simp add: lu_solve2_def lu_scale_def forward2_def backward2_def double_eval)
  have s3: "dgesv2 [[Finite 1, Finite 1], [Finite 1, Finite 1]] [Finite 1, Finite 0]
      = Inl linear_solve_error"
    by (simp add: lu_solve2_def lu_scale_def linear_solve_error_def double_eval)
  have neg0: "np_neg (shift_F [Finite 0, Finite 0]) = [Finite 1, Finite 0]"
    by (simp add: np_neg_def double_eval)
  have neg1: "np_neg (shift_F [Finite 1, Finite 0]) = [Finite 0, Finite 0]"
    by (simp add: np_neg_def double_eval)
  have add0: "np_add [Finite 0, Finite 0] [Finite 1, Finite 0] = Inr [Finite 1, Finite 0]"
    by (simp add: np_add_def double_eval)
  have add1: "np_add [Finite 1, Finite 0] [Finite 0, Finite 0] = Inr [Finite 1, Finite 0]"
    by (simp add: np_add_def double_eval)
  have st0: "newton_system_step dgesv2 shift_F identity_J [Finite 0, Finite 0]
      = Inr ([Finite 1, Finite 0], [Finite 1, Finite 0])"
    unfolding newton_system_step_def neg0 identity_J_def s1 by (simp add: add0)
  have st1: "newton_system_step dgesv2 shift_F identity_J [Finite 1, Finite 0]
      = Inr ([Finite 0, Finite 0], [Finite 1, Finite 0])"
    unfolding newton_system_step_def neg1 identity_J_def s2 by (simp add: add1)
  have st2: "newton_system_step dgesv2 shift_F ones_J [Finite 0, Finite 0]
      = Inl linear_solve_error"
    unfolding newton_system_step_def neg0 ones_J_def s3 by simp
  have n1: "linalg_norm [Finite 1, Finite 0] = Finite 1"
    by (simp add: linalg_norm_def double_eval)
  have n2: "linalg_norm [Finite 0, Finite 0] = Finite 0"
    by (simp add: linalg_norm_def double_eval)
  have tol: "\<not> fless (Finite 1) default_tol" "fless (Finite 0) default_tol"
    by (simp_all add: double_eval)
  have nx0: "system_next dgesv2 shift_F identity_J [Finite 0, Finite 0] = [Finite 1, Finite 0]"
    and c0: "system_correction dgesv2 shift_F identity_J [Finite 0, Finite 0]
      = [Finite 1, Finite 0]"
    by (simp_all add: system_next_def system_correction_def st0)
  have nx1: "system_next dgesv2 shift_F identity_J [Finite 1, Finite 0] = [Finite 1, Finite 0]"
    and c1: "system_correction dgesv2 shift_F identity_J [Finite 1, Finite 0]
      = [Finite 0, Finite 0]"
    by (simp_all add: system_next_def system_correction_def st1)
  have conv: "system_converged_at dgesv2 linalg_norm shift_F identity_J [Finite 0, Finite 0]
      default_tol (Suc 0)"
    unfolding system_converged_at_Suc system_converged_at_0 nx0 c0 c1 st0 st1 n1 n2
    using tol by simp
  have it: "[Finite 1, Finite 0]
      = newton_system_iterate dgesv2 shift_F identity_J [Finite 0, Finite 0] (Suc (Suc 0))"
    unfolding newton_system_iterate.simps nx0 nx1 by simp
  have "Suc 0 \<in> {..<nat 100}"
    by simp
  with conv it have a: "newton_system dgesv2 linalg_norm shift_F identity_J
      [Finite 0, Finite 0] default_tol 100 = Inr [Finite 1, Finite 0]"
    using newton_system_outcomes [of dgesv2 linalg_norm shift_F identity_J
        "[Finite 0, Finite 0]" default_tol 100 "[Finite 1, Finite 0]"]
    by blast
  have "system_failed_at dgesv2 linalg_norm shift_F ones_J [Finite 0, Finite 0] default_tol 0
      linear_solve_error"
    unfolding system_failed_at_0 by (rule st2)
  moreover have "0 \<in> {..<nat 100}"
    by simp
  ultimately have b: "newton_system dgesv2 linalg_norm shift_F ones_J [Finite 0, Finite 0]
      default_tol 100 = Inl linear_solve_error"
    using newton_system_outcomes [of dgesv2 linalg_norm shift_F ones_J
        "[Finite 0, Finite 0]" default_tol 100 _ linear_solve_error]
    by blast
  from a b show ?thesis
    by blast
qed

subsection \<open>Restarting from a returned value\<close>
















end
